theory Spec2Isabelle
  imports Complex_Main "HOL-Library.Multiset" "HOL-Library.Char_ord" "HOL-Library.List_Lexorder"
begin

section \<open>The expense ledger of \<^verbatim>\<open>main.py\<close>\<close>

text \<open>
  The program keeps one SQLite table \<^verbatim>\<open>expenses\<close> and offers six tools over it. The
  embedding has three layers, bottom up:
  \<^item> the Python values a tool can be called with, and the builtins \<^verbatim>\<open>int()\<close>,
    \<^verbatim>\<open>str.replace\<close>, \<^verbatim>\<open>str.split\<close> that the tools apply to them;
  \<^item> the table and the SQL statements the tools send, each as a function on the table;
  \<^item> the tools themselves, statement by statement as in the source.

  Scope of the embedding.
  \<^item> A tool argument is any value that JSON can carry: \<^verbatim>\<open>None\<close>, a bool, an int, a
    float (infinities and NaN included), a string, a list or a dict. The two bounds of a
    date range and the category of a summary are strings.
  \<^item> A \<open>string\<close> is a sequence of code points below 256. The table compares text with
    the BINARY collation, i.e. by code units, which is the lexicographic order of
    \<open>HOL-Library.List_Lexorder\<close> over the character order of \<open>HOL-Library.Char_ord\<close>.
  \<^item> A finite float is written as the real number it denotes. Nothing here computes
    with floats except \<^verbatim>\<open>int()\<close>, which truncates: what SQLite computes with them (the
    sum of a group, the text of a number, the number of a text, the float of a large
    integer) is a parameter of the embedding, see \<open>engine\<close> below.
  \<^item> An \<^verbatim>\<open>INTEGER\<close> of the table is a signed 64-bit number: Python's \<^verbatim>\<open>sqlite3\<close> raises
    \<^verbatim>\<open>OverflowError\<close> when it is asked to bind an integer outside that range, and the
    source does not catch it.
  \<^item> A statement has a largest number of parameters, also a parameter of the embedding.
  \<^item> Exhaustion of row ids, disk space and locking between processes are not modelled.
\<close>

subsection \<open>Python values and builtins\<close>

datatype pyfloat = Finite real | PosInf | NegInf | NaN

datatype pyval =
    PyNone
  | PyBool bool
  | PyInt int
  | PyFloat pyfloat
  | PyStr string
  | PyList "pyval list"
  | PyDict "(string \<times> pyval) list"

text \<open>
  The exceptions of the program. \<^verbatim>\<open>ProgrammingError\<close> is what \<^verbatim>\<open>sqlite3\<close> raises for a
  parameter of a type it cannot bind (\<^verbatim>\<open>InterfaceError\<close> before Python 3.11).
\<close>

datatype exn =
    TypeError
  | ValueError
  | OverflowError
  | OperationalError
  | IntegrityError
  | ProgrammingError

text \<open>
  \<^verbatim>\<open>int(s)\<close> on a string: surrounding whitespace is dropped, then an optional sign, then
  decimal digits, where single underscores may stand between two digits. More than 4300
  digits are refused (the default of \<^verbatim>\<open>sys.get_int_max_str_digits()\<close>). Whitespace for
  \<^verbatim>\<open>int\<close> is TAB, LF, VT, FF, CR, space, U+0085 and U+00A0.
\<close>

definition is_space_int :: "char \<Rightarrow> bool" where
  "is_space_int c = ((of_char c :: nat) \<in> {9, 10, 11, 12, 13, 32, 133, 160})"

definition is_digit :: "char \<Rightarrow> bool" where
  "is_digit c = (48 \<le> (of_char c :: nat) \<and> (of_char c :: nat) \<le> 57)"

definition digit_val :: "char \<Rightarrow> int" where
  "digit_val c = int (of_char c) - 48"

definition strip_int :: "string \<Rightarrow> string" where
  "strip_int s = rev (dropWhile is_space_int (rev (dropWhile is_space_int s)))"

fun digits_ok :: "string \<Rightarrow> bool" where
  "digits_ok [] = False"
| "digits_ok [c] = is_digit c"
| "digits_ok (c # d # cs) =
     (is_digit c \<and> (if d = CHR ''_'' then digits_ok cs else digits_ok (d # cs)))"

definition int_max_str_digits :: nat where
  "int_max_str_digits = 4300"

definition digits_value :: "string \<Rightarrow> int" where
  "digits_value s = fold (\<lambda>c n. 10 * n + digit_val c) (filter is_digit s) 0"

definition int_str :: "string \<Rightarrow> exn + int" where
  "int_str s =
     (let t = strip_int s;
          neg = (t \<noteq> [] \<and> hd t = CHR ''-'');
          body = (if t \<noteq> [] \<and> (hd t = CHR ''-'' \<or> hd t = CHR ''+'') then tl t else t)
      in if \<not> digits_ok body then Inl ValueError
         else if int_max_str_digits < length (filter is_digit body) then Inl ValueError
         else Inr (if neg then - digits_value body else digits_value body))"

text \<open>
  \<^verbatim>\<open>int(x)\<close> on a float cuts the fraction off (towards zero); an infinity raises
  \<^verbatim>\<open>OverflowError\<close>, NaN raises \<^verbatim>\<open>ValueError\<close>.
\<close>

definition int_float :: "pyfloat \<Rightarrow> exn + int" where
  "int_float f =
     (case f of
        Finite x \<Rightarrow> Inr (if 0 \<le> x then \<lfloor>x\<rfloor> else \<lceil>x\<rceil>)
      | PosInf \<Rightarrow> Inl OverflowError
      | NegInf \<Rightarrow> Inl OverflowError
      | NaN \<Rightarrow> Inl ValueError)"

text \<open>\<^verbatim>\<open>int(x)\<close> for any value: \<^verbatim>\<open>None\<close>, lists and dicts raise \<^verbatim>\<open>TypeError\<close>.\<close>

fun int_py :: "pyval \<Rightarrow> exn + int" where
  "int_py PyNone = Inl TypeError"
| "int_py (PyBool b) = Inr (if b then 1 else 0)"
| "int_py (PyInt i) = Inr i"
| "int_py (PyFloat f) = int_float f"
| "int_py (PyStr s) = int_str s"
| "int_py (PyList xs) = Inl TypeError"
| "int_py (PyDict kvs) = Inl TypeError"

text \<open>What \<^verbatim>\<open>except (TypeError, ValueError)\<close> catches.\<close>

definition caught :: "exn \<Rightarrow> bool" where
  "caught e = (e = TypeError \<or> e = ValueError)"

text \<open>
  \<^verbatim>\<open>s.replace(",", " ")\<close> and \<^verbatim>\<open>s.split()\<close>. \<^verbatim>\<open>split\<close> without argument cuts at runs of
  whitespace and yields no empty piece; its whitespace is that of \<^verbatim>\<open>str.isspace\<close>, which
  has the four separators U+001C..U+001F in addition to the whitespace of \<^verbatim>\<open>int\<close>.
\<close>

definition is_space :: "char \<Rightarrow> bool" where
  "is_space c = ((of_char c :: nat) \<in> {9, 10, 11, 12, 13, 28, 29, 30, 31, 32, 133, 160})"

definition replace_comma :: "string \<Rightarrow> string" where
  "replace_comma s = map (\<lambda>c. if c = CHR '','' then CHR '' '' else c) s"

fun split_from :: "string \<Rightarrow> string \<Rightarrow> string list" where
  "split_from cur [] = (if cur = [] then [] else [cur])"
| "split_from cur (c # cs) =
     (if is_space c then (if cur = [] then split_from [] cs else cur # split_from [] cs)
      else split_from (cur @ [c]) cs)"

definition split_py :: "string \<Rightarrow> string list" where
  "split_py s = split_from [] s"

subsection \<open>The table and its statements\<close>

text \<open>
  A value of SQLite: \<^verbatim>\<open>NULL\<close>, an integer, a float or a text. \<^verbatim>\<open>sqlite3\<close> binds a Python
  value as follows: \<^verbatim>\<open>None\<close> and the float NaN become \<^verbatim>\<open>NULL\<close>; a bool or an int becomes
  an integer, unless it is outside the signed 64-bit range, which raises
  \<^verbatim>\<open>OverflowError\<close>; a float becomes a float, a string a text; a list or a dict raises
  \<^verbatim>\<open>ProgrammingError\<close>. The parameters of a statement are bound from left to right, and
  the first that fails decides the exception.
\<close>

datatype sqlval = SqlNull | SqlInt int | SqlReal pyfloat | SqlText string

definition bindable :: "int \<Rightarrow> bool" where
  "bindable i = (- (2 ^ 63) \<le> i \<and> i < 2 ^ 63)"

fun bind_param :: "pyval \<Rightarrow> exn + sqlval" where
  "bind_param PyNone = Inr SqlNull"
| "bind_param (PyBool b) = Inr (SqlInt (if b then 1 else 0))"
| "bind_param (PyInt i) = (if bindable i then Inr (SqlInt i) else Inl OverflowError)"
| "bind_param (PyFloat f) = Inr (if f = NaN then SqlNull else SqlReal f)"
| "bind_param (PyStr s) = Inr (SqlText s)"
| "bind_param (PyList xs) = Inl ProgrammingError"
| "bind_param (PyDict kvs) = Inl ProgrammingError"

fun bind_params :: "pyval list \<Rightarrow> exn + sqlval list" where
  "bind_params [] = Inr []"
| "bind_params (p # ps) =
     (case bind_param p of
        Inl e \<Rightarrow> Inl e
      | Inr v \<Rightarrow> (case bind_params ps of Inl e \<Rightarrow> Inl e | Inr vs \<Rightarrow> Inr (v # vs)))"

text \<open>
  One row of \<^verbatim>\<open>expenses\<close>. The columns \<^verbatim>\<open>id\<close> and \<^verbatim>\<open>note\<close> carry a suffix, as \<open>id\<close> is
  the identity function of HOL and \<open>note\<close> a keyword of Isar. \<^verbatim>\<open>date\<close> and \<^verbatim>\<open>category\<close> are
  \<^verbatim>\<open>TEXT NOT NULL\<close>: whatever is stored there is stored as a text. \<^verbatim>\<open>amount\<close> is
  \<^verbatim>\<open>REAL NOT NULL\<close> and holds a float, or a text that is not a number; \<^verbatim>\<open>subcategory\<close>
  and \<^verbatim>\<open>note\<close> hold a text or \<^verbatim>\<open>NULL\<close>.
\<close>

record expense =
  id_col :: int
  date :: string
  amount :: sqlval
  category :: string
  subcategory :: sqlval
  note_col :: sqlval

text \<open>
  The database file: the rows of the table in the order of their ids' insertion, and
  the counter that \<^verbatim>\<open>AUTOINCREMENT\<close> keeps in the table \<^verbatim>\<open>sqlite_sequence\<close> (the largest
  id ever assigned).
\<close>

record store =
  rows :: "expense list"
  sqlite_sequence :: int

text \<open>
  What the SQLite library computes and this embedding does not: each is a parameter.
  \<^item> \<open>variable_limit\<close>: the largest number of \<^verbatim>\<open>?\<close> that one statement may have; a
    statement with more raises \<^verbatim>\<open>OperationalError\<close> when it is prepared, before any
    parameter is bound (32766 by default since SQLite 3.32, 999 before).
  \<^item> \<open>cast_text\<close>: the text of an integer or of a float, for a column of \<^verbatim>\<open>TEXT\<close> affinity.
  \<^item> \<open>double_of_int\<close>: the float nearest to an integer beyond \<open>2 ^ 53\<close> in magnitude, for
    the column of \<^verbatim>\<open>REAL\<close> affinity (up to \<open>2 ^ 53\<close> the float is the integer).
  \<^item> \<open>number_of_text\<close>: the float of a text that reads as a number, \<open>None\<close> for a text
    that does not, for the column of \<^verbatim>\<open>REAL\<close> affinity.
  \<^item> \<open>sum_agg\<close>: the aggregate \<^verbatim>\<open>SUM\<close> of the values of one group, in the order in which the
    group's rows reach it; it adds floats and rounds.
  \<^item> \<open>group_order\<close>: the sorter of \<^verbatim>\<open>GROUP BY category\<close>, which puts the selected rows in
    the order of their categories.
\<close>

record engine =
  variable_limit :: nat
  cast_text :: "sqlval \<Rightarrow> string"
  double_of_int :: "int \<Rightarrow> pyfloat"
  number_of_text :: "string \<Rightarrow> pyfloat option"
  sum_agg :: "sqlval list \<Rightarrow> sqlval"
  group_order :: "expense list \<Rightarrow> expense list"

text \<open>The conversions that a column's affinity applies to a value on its way in.\<close>

definition text_affinity :: "engine \<Rightarrow> sqlval \<Rightarrow> sqlval" where
  "text_affinity eng v =
     (case v of
        SqlNull \<Rightarrow> SqlNull
      | SqlText s \<Rightarrow> SqlText s
      | SqlInt i \<Rightarrow> SqlText (cast_text eng v)
      | SqlReal f \<Rightarrow> SqlText (cast_text eng v))"

definition real_affinity :: "engine \<Rightarrow> sqlval \<Rightarrow> sqlval" where
  "real_affinity eng v =
     (case v of
        SqlNull \<Rightarrow> SqlNull
      | SqlReal f \<Rightarrow> SqlReal f
      | SqlInt i \<Rightarrow>
          SqlReal (if \<bar>i\<bar> \<le> 2 ^ 53 then Finite (of_int i) else double_of_int eng i)
      | SqlText s \<Rightarrow> (case number_of_text eng s of None \<Rightarrow> SqlText s | Some f \<Rightarrow> SqlReal f))"

datatype column = Date | Amount | Category | Subcategory | Note

definition affinity :: "engine \<Rightarrow> column \<Rightarrow> sqlval \<Rightarrow> sqlval" where
  "affinity eng col v = (if col = Amount then real_affinity eng v else text_affinity eng v)"

definition not_null :: "column \<Rightarrow> bool" where
  "not_null col = (col = Date \<or> col = Amount \<or> col = Category)"

definition text_of :: "sqlval \<Rightarrow> string" where
  "text_of v = (case v of SqlText s \<Rightarrow> s | _ \<Rightarrow> [])"

text \<open>Writing a converted value into a column of a row.\<close>

fun set_column :: "column \<Rightarrow> sqlval \<Rightarrow> expense \<Rightarrow> expense" where
  "set_column Date v r = r\<lparr>date := text_of v\<rparr>"
| "set_column Amount v r = r\<lparr>amount := v\<rparr>"
| "set_column Category v r = r\<lparr>category := text_of v\<rparr>"
| "set_column Subcategory v r = r\<lparr>subcategory := v\<rparr>"
| "set_column Note v r = r\<lparr>note_col := v\<rparr>"

text \<open>
  The values a statement writes, after conversion; \<^verbatim>\<open>NOT NULL\<close> is violated when one of
  them is \<^verbatim>\<open>NULL\<close> in a column that forbids it.
\<close>

definition converted :: "engine \<Rightarrow> (column \<times> sqlval) list \<Rightarrow> (column \<times> sqlval) list" where
  "converted eng assignments = map (\<lambda>(col, v). (col, affinity eng col v)) assignments"

definition violates_not_null :: "(column \<times> sqlval) list \<Rightarrow> bool" where
  "violates_not_null assignments = list_ex (\<lambda>(col, v). not_null col \<and> v = SqlNull) assignments"

definition write_columns :: "(column \<times> sqlval) list \<Rightarrow> expense \<Rightarrow> expense" where
  "write_columns assignments r = fold (\<lambda>(col, v). set_column col v) assignments r"

text \<open>\<^verbatim>\<open>init_db\<close>: \<^verbatim>\<open>CREATE TABLE IF NOT EXISTS\<close>; \<open>None\<close> is a file without the table.\<close>

definition init_db :: "store option \<Rightarrow> store" where
  "init_db f = (case f of None \<Rightarrow> \<lparr>rows = [], sqlite_sequence = 0\<rparr> | Some db \<Rightarrow> db)"

text \<open>\<^verbatim>\<open>x BETWEEN lo AND hi\<close> on text.\<close>

definition between :: "string \<Rightarrow> string \<Rightarrow> string \<Rightarrow> bool" where
  "between x lo hi = (lo \<le> x \<and> x \<le> hi)"

text \<open>
  \<^verbatim>\<open>INSERT INTO expenses(date, amount, category, subcategory, note) VALUES (?,?,?,?,?)\<close>
  with the five values bound: they are converted, \<^verbatim>\<open>NOT NULL\<close> is checked
  (\<^verbatim>\<open>IntegrityError\<close>), and the row is added. The new id is one more than the larger of
  the counter and the largest id in the table; the counter becomes the new id. Returns
  the new table and \<^verbatim>\<open>lastrowid\<close>.
\<close>

definition next_id :: "store \<Rightarrow> int" where
  "next_id db = max (sqlite_sequence db) (fold max (map id_col (rows db)) 0) + 1"

definition blank_row :: "int \<Rightarrow> expense" where
  "blank_row i =
     \<lparr>id_col = i, date = [], amount = SqlNull, category = [], subcategory = SqlNull, note_col = SqlNull\<rparr>"

definition sql_insert :: "engine \<Rightarrow> store \<Rightarrow> sqlval list \<Rightarrow> exn + store \<times> int" where
  "sql_insert eng db params =
     (let vals = converted eng (zip [Date, Amount, Category, Subcategory, Note] params)
      in if violates_not_null vals then Inl IntegrityError
         else
           (let i = next_id db
            in Inr (\<lparr>rows = rows db @ [write_columns vals (blank_row i)],
                     sqlite_sequence = i\<rparr>, i)))"

text \<open>\<^verbatim>\<open>SELECT ... FROM expenses WHERE date BETWEEN ? AND ? ORDER BY id ASC\<close>\<close>

definition sql_select_between :: "store \<Rightarrow> string \<Rightarrow> string \<Rightarrow> expense list" where
  "sql_select_between db lo hi = sort_key id_col (filter (\<lambda>r. between (date r) lo hi) (rows db))"

text \<open>
  \<^verbatim>\<open>DELETE FROM expenses WHERE id = ?\<close>, \<^verbatim>\<open>DELETE FROM expenses\<close> and
  \<^verbatim>\<open>DELETE FROM expenses WHERE id IN (?,...)\<close>: the new table and \<^verbatim>\<open>rowcount\<close>, the number
  of rows removed.
\<close>

definition sql_delete_where :: "store \<Rightarrow> (expense \<Rightarrow> bool) \<Rightarrow> store \<times> nat" where
  "sql_delete_where db p =
     (db\<lparr>rows := filter (\<lambda>r. \<not> p r) (rows db)\<rparr>, length (filter p (rows db)))"

definition sql_delete_id :: "store \<Rightarrow> int \<Rightarrow> store \<times> nat" where
  "sql_delete_id db i = sql_delete_where db (\<lambda>r. id_col r = i)"

definition sql_delete_all :: "store \<Rightarrow> store \<times> nat" where
  "sql_delete_all db = sql_delete_where db (\<lambda>r. True)"

text \<open>
  A statement with one \<^verbatim>\<open>?\<close> for each of the integers \<open>ids\<close>: it is refused with
  \<^verbatim>\<open>OperationalError\<close> when they are more than the limit, and else with
  \<^verbatim>\<open>OverflowError\<close> when one of them cannot be bound.
\<close>

definition prepare_in :: "engine \<Rightarrow> int list \<Rightarrow> exn option" where
  "prepare_in eng ids =
     (if variable_limit eng < length ids then Some OperationalError
      else if \<not> list_all bindable ids then Some OverflowError
      else None)"

text \<open>\<^verbatim>\<open>SELECT id FROM expenses WHERE id IN (?,...)\<close>\<close>

definition sql_select_ids_in :: "engine \<Rightarrow> store \<Rightarrow> int list \<Rightarrow> exn + int list" where
  "sql_select_ids_in eng db ids =
     (case prepare_in eng ids of
        Some e \<Rightarrow> Inl e
      | None \<Rightarrow> Inr (filter (\<lambda>i. i \<in> set ids) (map id_col (rows db))))"

text \<open>\<^verbatim>\<open>DELETE FROM expenses WHERE id IN (?,...)\<close>\<close>

definition sql_delete_in :: "engine \<Rightarrow> store \<Rightarrow> int list \<Rightarrow> exn + store \<times> nat" where
  "sql_delete_in eng db ids =
     (case prepare_in eng ids of
        Some e \<Rightarrow> Inl e
      | None \<Rightarrow> Inr (sql_delete_where db (\<lambda>r. id_col r \<in> set ids)))"

text \<open>\<^verbatim>\<open>SELECT 1 FROM expenses WHERE id = ?\<close> with \<^verbatim>\<open>fetchone()\<close>: is there a row.\<close>

definition sql_exists :: "store \<Rightarrow> int \<Rightarrow> bool" where
  "sql_exists db i = (filter (\<lambda>r. id_col r = i) (rows db) \<noteq> [])"

text \<open>
  \<^verbatim>\<open>UPDATE expenses SET f1 = ?, ... WHERE id = ?\<close> with the values bound. When a row has
  the id, the values are converted and \<^verbatim>\<open>NOT NULL\<close> is checked (\<^verbatim>\<open>IntegrityError\<close>), then
  they are written. \<^verbatim>\<open>rowcount\<close> is the number of rows the \<^verbatim>\<open>WHERE\<close> clause selects: SQLite
  counts a row as changed whether or not the values written differ from the values
  stored.
\<close>

definition sql_update :: "engine \<Rightarrow> store \<Rightarrow> (column \<times> sqlval) list \<Rightarrow> int \<Rightarrow> exn + store \<times> nat" where
  "sql_update eng db assignments i =
     (let vals = converted eng assignments;
          hit = filter (\<lambda>r. id_col r = i) (rows db)
      in if hit \<noteq> [] \<and> violates_not_null vals then Inl IntegrityError
         else Inr (db\<lparr>rows := map (\<lambda>r. if id_col r = i then write_columns vals r else r) (rows db)\<rparr>,
                   length hit))"

text \<open>
  \<^verbatim>\<open>SELECT category, SUM(amount) ... GROUP BY category ORDER BY category ASC\<close>: the
  selected rows go through the sorter, one pass cuts them into the runs of equal
  category, and each run's amounts go to \<^verbatim>\<open>SUM\<close> in their order.
\<close>

fun runs :: "(string \<times> sqlval) list \<Rightarrow> (string \<times> sqlval list) list" where
  "runs [] = []"
| "runs ((k, v) # xs) =
     (case runs xs of
        [] \<Rightarrow> [(k, [v])]
      | (k', vs) # rest \<Rightarrow> if k = k' then (k, v # vs) # rest else (k, [v]) # (k', vs) # rest)"

definition sql_sum_by_category :: "engine \<Rightarrow> store \<Rightarrow> (expense \<Rightarrow> bool) \<Rightarrow> (string \<times> sqlval) list" where
  "sql_sum_by_category eng db p =
     map (\<lambda>(k, vs). (k, sum_agg eng vs))
       (runs (map (\<lambda>r. (category r, amount r)) (group_order eng (filter p (rows db)))))"

subsection \<open>The tools\<close>

text \<open>
  What a tool returns: the dictionaries of the source, one constructor for each set of
  keys, the value of \<^verbatim>\<open>status\<close> first.
\<close>

datatype reply =
    Status_id string int
  | Status_deleted string nat
  | Status_deleted_missing string nat "int list"
  | Status_updated string nat
  | Status_message string string
  | Status_message_invalid string string "pyval list"

text \<open>
  A tool that writes returns its reply, or the exception that escapes it, and the table
  afterwards. An exception inside \<^verbatim>\<open>with sqlite3.connect(...)\<close> rolls the transaction
  back, so the table is then the one before the call.
\<close>

type_synonym outcome = "(exn + reply) \<times> store"

definition add_expense :: "engine \<Rightarrow> store \<Rightarrow> pyval \<Rightarrow> pyval \<Rightarrow> pyval \<Rightarrow> pyval \<Rightarrow> pyval \<Rightarrow> outcome" where
  "add_expense eng db date_arg amount_arg category_arg subcategory_arg note_arg =
     (case bind_params [date_arg, amount_arg, category_arg, subcategory_arg, note_arg] of
        Inl e \<Rightarrow> (Inl e, db)
      | Inr params \<Rightarrow>
          (case sql_insert eng db params of
             Inl e \<Rightarrow> (Inl e, db)
           | Inr (db', lastrowid) \<Rightarrow> (Inr (Status_id ''ok'' lastrowid), db')))"

text \<open>The call that omits \<^verbatim>\<open>subcategory\<close> and \<^verbatim>\<open>note\<close> takes their defaults.\<close>

definition add_expense_default :: "engine \<Rightarrow> store \<Rightarrow> pyval \<Rightarrow> pyval \<Rightarrow> pyval \<Rightarrow> outcome" where
  "add_expense_default eng db date_arg amount_arg category_arg =
     add_expense eng db date_arg amount_arg category_arg (PyStr '''') (PyStr '''')"

definition list_expenses :: "store \<Rightarrow> string \<Rightarrow> string \<Rightarrow> expense list" where
  "list_expenses db start_date end_date = sql_select_between db start_date end_date"

definition delete_expense :: "store \<Rightarrow> pyval \<Rightarrow> outcome" where
  "delete_expense db expense_id =
     (case int_py expense_id of
        Inl e \<Rightarrow>
          if caught e
          then (Inr (Status_message ''error'' ''expense_id must be an integer''), db)
          else (Inl e, db)
      | Inr i \<Rightarrow>
          if \<not> bindable i then (Inl OverflowError, db)
          else
            (let (db', rowcount) = sql_delete_id db i
             in if rowcount = 0 then (Inr (Status_deleted ''not_found'' 0), db')
                else (Inr (Status_deleted ''ok'' rowcount), db')))"

text \<open>
  The loop of \<^verbatim>\<open>delete_expenses\<close> that fills \<^verbatim>\<open>ids\<close> and \<^verbatim>\<open>invalid\<close>; an exception of
  \<^verbatim>\<open>int()\<close> that the \<^verbatim>\<open>except\<close> clause does not name leaves the loop and the tool.
\<close>

fun coerce_loop :: "int list \<Rightarrow> pyval list \<Rightarrow> pyval list \<Rightarrow> exn + int list \<times> pyval list" where
  "coerce_loop ids invalid [] = Inr (ids, invalid)"
| "coerce_loop ids invalid (item # rest) =
     (case int_py item of
        Inr i \<Rightarrow> coerce_loop (ids @ [i]) invalid rest
      | Inl e \<Rightarrow> if caught e then coerce_loop ids (invalid @ [item]) rest else Inl e)"

definition raw_ids_of :: "pyval \<Rightarrow> pyval list" where
  "raw_ids_of expense_ids =
     (case expense_ids of
        PyStr s \<Rightarrow> map PyStr (filter (\<lambda>p. p \<noteq> []) (split_py (replace_comma s)))
      | PyList xs \<Rightarrow> xs
      | _ \<Rightarrow> [expense_ids])"

definition delete_expenses :: "engine \<Rightarrow> store \<Rightarrow> pyval \<Rightarrow> bool \<Rightarrow> outcome" where
  "delete_expenses eng db expense_ids delete_all =
     (if delete_all then
        (let (db', rowcount) = sql_delete_all db
         in (Inr (Status_deleted ''ok'' rowcount), db'))
      else if expense_ids = PyNone then
        (Inr (Status_message ''error'' ''provide expense_ids or set delete_all=true''), db)
      else
        (case coerce_loop [] [] (raw_ids_of expense_ids) of
           Inl e \<Rightarrow> (Inl e, db)
         | Inr (ids, invalid) \<Rightarrow>
             if invalid \<noteq> [] then
               (Inr (Status_message_invalid ''error'' ''expense_ids must be integers'' invalid), db)
             else if ids = [] then
               (Inr (Status_message ''error'' ''no valid expense_ids provided''), db)
             else
               (case sql_select_ids_in eng db ids of
                  Inl e \<Rightarrow> (Inl e, db)
                | Inr found \<Rightarrow>
                    (case sql_delete_in eng db ids of
                       Inl e \<Rightarrow> (Inl e, db)
                     | Inr (db', rowcount) \<Rightarrow>
                         (let existing = set found;
                              missing = sorted_list_of_set (set ids - existing);
                              status = (if 0 < rowcount then ''ok'' else ''not_found'')
                          in (Inr (Status_deleted_missing status rowcount missing), db'))))))"

text \<open>
  The five \<^verbatim>\<open>if ... is not None\<close> of \<^verbatim>\<open>update_expense\<close>, in their order: the columns to
  set, each with its parameter.
\<close>

definition update_fields ::
  "pyval \<Rightarrow> pyval \<Rightarrow> pyval \<Rightarrow> pyval \<Rightarrow> pyval \<Rightarrow> (column \<times> pyval) list" where
  "update_fields date_arg amount_arg category_arg subcategory_arg note_arg =
     (if date_arg \<noteq> PyNone then [(Date, date_arg)] else []) @
     (if amount_arg \<noteq> PyNone then [(Amount, amount_arg)] else []) @
     (if category_arg \<noteq> PyNone then [(Category, category_arg)] else []) @
     (if subcategory_arg \<noteq> PyNone then [(Subcategory, subcategory_arg)] else []) @
     (if note_arg \<noteq> PyNone then [(Note, note_arg)] else [])"

definition update_expense ::
  "engine \<Rightarrow> store \<Rightarrow> pyval \<Rightarrow> pyval \<Rightarrow> pyval \<Rightarrow> pyval \<Rightarrow> pyval \<Rightarrow> pyval \<Rightarrow> outcome" where
  "update_expense eng db expense_id date_arg amount_arg category_arg subcategory_arg note_arg =
     (case int_py expense_id of
        Inl e \<Rightarrow>
          if caught e
          then (Inr (Status_message ''error'' ''expense_id must be an integer''), db)
          else (Inl e, db)
      | Inr i \<Rightarrow>
          (let field_list = update_fields date_arg amount_arg category_arg subcategory_arg note_arg
           in if field_list = [] then
                (Inr (Status_message ''error'' ''provide at least one field to update''), db)
              else
                (case bind_params (map snd field_list @ [PyInt i]) of
                   Inl e \<Rightarrow> (Inl e, db)
                 | Inr params \<Rightarrow>
                     (case sql_update eng db (zip (map fst field_list) params) i of
                        Inl e \<Rightarrow> (Inl e, db)
                      | Inr (db', rowcount) \<Rightarrow>
                          if rowcount = 0 then
                            (if sql_exists db' i then (Inr (Status_updated ''no_change'' 0), db')
                             else (Inr (Status_updated ''not_found'' 0), db'))
                          else (Inr (Status_updated ''ok'' rowcount), db')))))"

text \<open>
  \<^verbatim>\<open>summarize\<close>: the filter on the category is added \<^verbatim>\<open>if category:\<close>, that is when the
  argument is neither \<^verbatim>\<open>None\<close> nor the empty string.
\<close>

definition summarize :: "engine \<Rightarrow> store \<Rightarrow> string \<Rightarrow> string \<Rightarrow> string option \<Rightarrow> (string \<times> sqlval) list" where
  "summarize eng db start_date end_date cat =
     (if cat \<noteq> None \<and> cat \<noteq> Some []
      then sql_sum_by_category eng db
             (\<lambda>r. between (date r) start_date end_date \<and> category r = the cat)
      else sql_sum_by_category eng db (\<lambda>r. between (date r) start_date end_date))"

subsection \<open>The table's key, and what the specification says in its own words\<close>

text \<open>\<^verbatim>\<open>id INTEGER PRIMARY KEY\<close>: no two rows of the table have the same id.\<close>

definition primary_key :: "store \<Rightarrow> bool" where
  "primary_key db = distinct (map id_col (rows db))"

text \<open>
  The specification's tokens of a delimited string: the string is cut at every comma and
  at every whitespace character, and the empty pieces are discarded.
\<close>

fun pieces :: "(char \<Rightarrow> bool) \<Rightarrow> string \<Rightarrow> string \<Rightarrow> string list" where
  "pieces sep cur [] = [cur]"
| "pieces sep cur (c # cs) =
     (if sep c then cur # pieces sep [] cs else pieces sep (cur @ [c]) cs)"

definition tokens_spec :: "string \<Rightarrow> string list" where
  "tokens_spec s = filter (\<lambda>t. t \<noteq> []) (pieces (\<lambda>c. c = CHR '','' \<or> is_space c) [] s)"


text \<open>
  The sorter does its work on a list of rows: it gives the same rows back, in the order
  of their categories.
\<close>

definition sorts_by_category :: "engine \<Rightarrow> expense list \<Rightarrow> bool" where
  "sorts_by_category eng xs =
     (mset (group_order eng xs) = mset xs \<and> sorted (map category (group_order eng xs)))"

text \<open>
  The amounts that come back from the table as they went in: a float other than NaN,
  which is stored as it is, and a bool or an int of magnitude up to \<open>2 ^ 53\<close>, which is
  stored as the float of the same value.
\<close>

definition plain_amount :: "pyval \<Rightarrow> bool" where
  "plain_amount v =
     (case v of
        PyFloat f \<Rightarrow> f \<noteq> NaN
      | PyInt k \<Rightarrow> \<bar>k\<bar> \<le> 2 ^ 53
      | PyBool b \<Rightarrow> True
      | _ \<Rightarrow> False)"

definition amount_cell :: "pyval \<Rightarrow> sqlval" where
  "amount_cell v =
     (case v of
        PyFloat f \<Rightarrow> SqlReal f
      | PyInt k \<Rightarrow> SqlReal (Finite (of_int k))
      | PyBool b \<Rightarrow> SqlReal (Finite (if b then 1 else 0))
      | _ \<Rightarrow> SqlNull)"


text \<open>
  An engine and a ledger to evaluate the tools on. The engine has the default limit of
  SQLite and sorts by insertion; its conversions and its \<^verbatim>\<open>SUM\<close> are left unspecified.
  The ledger has the record of the specification's example and two more; the record
  with id 2 has been deleted.
\<close>

definition sample_engine :: engine where
  "sample_engine =
     \<lparr>variable_limit = 32766, cast_text = undefined, double_of_int = undefined,
      number_of_text = undefined, sum_agg = undefined, group_order = sort_key category\<rparr>"

definition ledger :: store where
  "ledger =
     \<lparr>rows =
        [\<lparr>id_col = 1, date = ''2024-01-05'', amount = SqlReal (Finite 42.5), category = ''Food'',
            subcategory = SqlText ''Lunch'', note_col = SqlText ''Deli''\<rparr>,
         \<lparr>id_col = 3, date = ''2024-02-01'', amount = SqlReal (Finite 10), category = ''Auto'',
            subcategory = SqlText '''', note_col = SqlText ''''\<rparr>,
         \<lparr>id_col = 4, date = ''2024-01-31'', amount = SqlReal (Finite 1), category = ''Food'',
            subcategory = SqlText '''', note_col = SqlText ''''\<rparr>],
      sqlite_sequence = 4\<rparr>"

section \<open>Properties\<close>

subsection \<open>Listing\<close>

lemma sql_select_between_mset:
  "mset (sql_select_between db lo hi) = filter_mset (\<lambda>r. lo \<le> date r \<and> date r \<le> hi) (mset (rows db))"
  by (simp add: sql_select_between_def between_def)

lemma sql_select_between_sorted: "sorted (map id_col (sql_select_between db lo hi))"
  by (simp add: sql_select_between_def)

lemma sql_select_between_empty:
  "(sql_select_between db lo hi = []) = (filter (\<lambda>r. lo \<le> date r \<and> date r \<le> hi) (rows db) = [])"
proof -
  have "(sort_key id_col xs = []) = (xs = [])" for xs :: "expense list"
    using length_sort [of id_col xs] by (cases xs) auto
  then show ?thesis
    by (simp add: sql_select_between_def between_def)
qed

text \<open>
  The order of text, unfolded once: the empty string is below every string, and two
  non-empty strings compare by their first characters' codes, then by their rests.
\<close>

lemma text_order:
  "([] :: string) \<le> ys"
  "\<not> x # xs \<le> ([] :: string)"
  "(x # xs \<le> y # ys) = ((of_char x :: nat) < of_char y \<or> x = y \<and> xs \<le> ys)"
  by (simp_all add: less_char_def)

lemma list_expenses_ledger:
  "list_expenses ledger ''2024-01-05'' ''2024-01-31'' = [rows ledger ! 0, rows ledger ! 2]
   \<and> list_expenses ledger ''2024-01-06'' ''2024-01-30'' = []
   \<and> list_expenses ledger ''2024-02-01'' ''2024-01-01'' = []"
  by (simp add: list_expenses_def sql_select_between_def between_def ledger_def)

lemma list_expenses_strictly_ascending:
  assumes "primary_key db"
  shows "sorted_wrt (<) (map id_col (list_expenses db start_date end_date))"
proof -
  have d: "distinct (map id_col (filter (\<lambda>r. between (date r) start_date end_date) (rows db)))"
    using assms by (simp add: primary_key_def distinct_map_filter)
  have m: "mset (map id_col (list_expenses db start_date end_date)) =
      mset (map id_col (filter (\<lambda>r. between (date r) start_date end_date) (rows db)))"
    by (simp add: list_expenses_def sql_select_between_def)
  from d have "distinct (map id_col (list_expenses db start_date end_date))"
    by (rule iffD2 [OF mset_eq_imp_distinct_iff [OF m]])
  moreover have "sorted (map id_col (list_expenses db start_date end_date))"
    by (simp add: list_expenses_def sql_select_between_def)
  ultimately show ?thesis by (simp add: strict_sorted_iff)
qed

text \<open>
  C5. \<^verbatim>\<open>list(start_date, end_date)\<close> returns exactly the records whose date is lexically
  between the two bounds, both included (as a multiset: each such record once for each
  time it is in the table), in ascending order of id; it is the empty list exactly when
  no record is in the range.
\<close>

theorem list_expenses_range:
  "mset (list_expenses db start_date end_date) =
     filter_mset (\<lambda>r. start_date \<le> date r \<and> date r \<le> end_date) (mset (rows db))
   \<and> sorted (map id_col (list_expenses db start_date end_date))
   \<and> ((list_expenses db start_date end_date = []) =
        (filter (\<lambda>r. start_date \<le> date r \<and> date r \<le> end_date) (rows db) = []))"
  unfolding list_expenses_def
  using sql_select_between_mset sql_select_between_sorted sql_select_between_empty
  by blast

subsection \<open>Deleting everything\<close>

text \<open>
  C7. With \<^verbatim>\<open>delete_all=true\<close>, \<^verbatim>\<open>delete_many\<close> ignores \<^verbatim>\<open>expense_ids\<close>, removes every
  record and answers \<^verbatim>\<open>{status: ok, deleted: n}\<close> with \<open>n\<close> the number of records there
  were, also when that is 0; a list over any range is empty afterwards.
\<close>

theorem delete_all_empties:
  "delete_expenses eng db expense_ids True =
     (Inr (Status_deleted ''ok'' (length (rows db))), db\<lparr>rows := []\<rparr>)
   \<and> list_expenses (snd (delete_expenses eng db expense_ids True)) start_date end_date = []"
  by (simp add: delete_expenses_def sql_delete_all_def sql_delete_where_def
      list_expenses_def sql_select_between_def)

subsection \<open>Facts about the table\<close>

lemma count_by_key:
  "distinct (map f xs) \<Longrightarrow> length (filter (\<lambda>r. f r = i) xs) = (if i \<in> f ` set xs then 1 else 0)"
  by (induction xs) auto

lemma filter_absent_key: "i \<notin> f ` set xs \<Longrightarrow> filter (\<lambda>r. f r \<noteq> i) xs = xs"
  by (induction xs) auto

lemma fold_max_ge_init: "(a::int) \<le> fold max xs a"
  by (induction xs arbitrary: a) (auto intro: order_trans [OF max.cobounded2])

lemma fold_max_ge_member: "x \<in> set xs \<Longrightarrow> (x::int) \<le> fold max xs a"
proof (induction xs arbitrary: a)
  case Nil
  then show ?case by simp
next
  case (Cons y ys)
  show ?case
  proof (cases "x = y")
    case True
    have "y \<le> max y a" by simp
    also have "\<dots> \<le> fold max ys (max y a)" by (rule fold_max_ge_init)
    finally show ?thesis using True by simp
  next
    case False
    with Cons show ?thesis by simp
  qed
qed

lemma next_id_fresh: "next_id db \<notin> id_col ` set (rows db)"
proof
  assume "next_id db \<in> id_col ` set (rows db)"
  then have "next_id db \<in> set (map id_col (rows db))" by simp
  then have "next_id db \<le> fold max (map id_col (rows db)) 0"
    by (rule fold_max_ge_member)
  then show False by (simp add: next_id_def)
qed

lemma next_id_above_sequence: "sqlite_sequence db < next_id db"
  by (simp add: next_id_def)

lemma id_col_set_column: "id_col (set_column col v r) = id_col r"
  by (cases col) simp_all

lemma id_col_write_columns: "id_col (write_columns vs r) = id_col r"
  unfolding write_columns_def
  by (induction vs arbitrary: r) (simp_all add: id_col_set_column split_beta)

lemma sql_update_ids:
  "sql_update eng db fs i = Inr (db', n) \<Longrightarrow> map id_col (rows db') = map id_col (rows db)"
  by (auto simp: sql_update_def Let_def id_col_write_columns split: if_splits)

lemma sql_update_rowcount:
  "sql_update eng db fs i = Inr (db', n) \<Longrightarrow> n = length (filter (\<lambda>r. id_col r = i) (rows db))"
  by (auto simp: sql_update_def Let_def split: if_splits)

lemma sql_exists_iff: "sql_exists db i = (i \<in> set (map id_col (rows db)))"
  by (auto simp: sql_exists_def filter_empty_conv)

lemma rowcount_zero_iff:
  "(length (filter (\<lambda>r. id_col r = i) (rows db)) = 0) = (\<not> sql_exists db i)"
  by (simp add: sql_exists_def)

text \<open>
  Every tool keeps the ids of the table distinct, and the table that \<^verbatim>\<open>init_db\<close> creates
  has none: \<open>primary_key\<close> holds of every table the tools can reach.
\<close>

lemma primary_key_init: "primary_key (init_db None)"
  by (simp add: primary_key_def init_db_def)

lemma primary_key_insert:
  assumes "primary_key db" and "sql_insert eng db params = Inr (db', i)"
  shows "primary_key db'"
  using assms next_id_fresh [of db]
  by (auto simp: primary_key_def sql_insert_def Let_def id_col_write_columns blank_row_def
      split: if_splits)

lemma primary_key_add:
  assumes "primary_key db"
  shows "primary_key (snd (add_expense eng db d a c s n))"
  using assms primary_key_insert [OF assms]
  by (auto simp: add_expense_def split: sum.splits)

lemma primary_key_delete_where:
  "primary_key db \<Longrightarrow> primary_key (fst (sql_delete_where db p))"
  by (simp add: primary_key_def sql_delete_where_def distinct_map_filter)

lemma primary_key_delete_expense:
  assumes "primary_key db"
  shows "primary_key (snd (delete_expense db expense_id))"
  using assms primary_key_delete_where [OF assms, of "\<lambda>r. id_col r = i" for i]
  by (simp add: delete_expense_def sql_delete_id_def case_prod_beta split: sum.splits)

lemma primary_key_delete_expenses:
  assumes "primary_key db"
  shows "primary_key (snd (delete_expenses eng db expense_ids delete_all))"
proof -
  have "primary_key db'" if "sql_delete_in eng db ids = Inr (db', n)" for ids db' n
    using that primary_key_delete_where [OF assms, of "\<lambda>r. id_col r \<in> set ids"]
    by (auto simp: sql_delete_in_def split: option.splits)
  then show ?thesis
    using assms primary_key_delete_where [OF assms, of "\<lambda>r. True"]
    by (auto simp: delete_expenses_def sql_delete_all_def case_prod_beta Let_def
        split: sum.splits)
qed

lemma primary_key_update_expense:
  assumes "primary_key db"
  shows "primary_key (snd (update_expense eng db expense_id d a c s n))"
proof -
  have "primary_key db'" if "sql_update eng db fs i = Inr (db', k)" for fs i db' k
    using assms sql_update_ids [OF that] by (simp add: primary_key_def)
  with assms show ?thesis
    by (auto simp: update_expense_def Let_def split: sum.splits)
qed

subsection \<open>Deleting one record\<close>

text \<open>
  C8, as amended. For every table and every \<^verbatim>\<open>expense_id\<close> that \<^verbatim>\<open>int()\<close> turns into an
  integer of the signed 64-bit range: when no record has that id, \<^verbatim>\<open>delete\<close> answers
  \<^verbatim>\<open>{status: not_found, deleted: 0}\<close> and the table is unchanged; when a record has it,
  \<^verbatim>\<open>delete\<close> answers \<^verbatim>\<open>{status: ok, deleted: 1}\<close> and the table is the one before without
  that record.
\<close>

theorem delete_expense_by_id:
  assumes "primary_key db" and "int_py expense_id = Inr i" and "bindable i"
  shows "delete_expense db expense_id =
    (if i \<in> id_col ` set (rows db)
     then (Inr (Status_deleted ''ok'' 1), db\<lparr>rows := filter (\<lambda>r. id_col r \<noteq> i) (rows db)\<rparr>)
     else (Inr (Status_deleted ''not_found'' 0), db))"
proof -
  from assms(1) have n: "length (filter (\<lambda>r. id_col r = i) (rows db)) = (if i \<in> id_col ` set (rows db) then 1 else 0)"
    unfolding primary_key_def by (rule count_by_key)
  show ?thesis
  proof (cases "i \<in> id_col ` set (rows db)")
    case True
    with n assms(2,3) show ?thesis
      by (simp add: delete_expense_def sql_delete_id_def sql_delete_where_def)
  next
    case False
    then have "filter (\<lambda>r. id_col r \<noteq> i) (rows db) = rows db" by (rule filter_absent_key)
    with False n assms(2,3) show ?thesis
      by (simp add: delete_expense_def sql_delete_id_def sql_delete_where_def)
  qed
qed

theorem delete_expense_by_id_witness:
  "delete_expense ledger (PyStr '' 3'') =
     (Inr (Status_deleted ''ok'' 1), ledger\<lparr>rows := [rows ledger ! 0, rows ledger ! 2]\<rparr>)
   \<and> delete_expense ledger (PyInt 2) = (Inr (Status_deleted ''not_found'' 0), ledger)"
proof -
  have k: "primary_key ledger" by (simp add: primary_key_def ledger_def)
  have a: "int_py (PyStr '' 3'') = Inr 3"
    by (simp add: int_str_def strip_int_def is_space_int_def is_digit_def digits_value_def
        digit_val_def int_max_str_digits_def)
  have b: "int_py (PyInt 2) = Inr 2" by simp
  have c: "bindable 3" "bindable 2" by (simp_all add: bindable_def)
  show ?thesis
    using delete_expense_by_id [OF k a c(1)] delete_expense_by_id [OF k b c(2)]
    by (simp add: ledger_def)
qed

text \<open>
  C8 as stated, for every id that \<^verbatim>\<open>int()\<close> accepts, fails at \<open>2 ^ 63\<close>: no record has
  that id, and the call ends in \<^verbatim>\<open>OverflowError\<close> instead of the \<^verbatim>\<open>not_found\<close> reply.
\<close>

theorem delete_expense_unbounded_counterexample:
  "primary_key ledger
   \<and> int_py (PyInt 9223372036854775808) = Inr 9223372036854775808
   \<and> 9223372036854775808 \<notin> id_col ` set (rows ledger)
   \<and> delete_expense ledger (PyInt 9223372036854775808) = (Inl OverflowError, ledger)
   \<and> fst (delete_expense ledger (PyInt 9223372036854775808)) \<noteq> Inr (Status_deleted ''not_found'' 0)"
  by (simp add: primary_key_def ledger_def delete_expense_def bindable_def)

subsection \<open>Adding a record\<close>

text \<open>
  A plain amount is bound and converted to the float it stands for, and is not \<^verbatim>\<open>NULL\<close>;
  with four texts around it the statement inserts the row as supplied.
\<close>

lemma small_int_bindable: "\<bar>k\<bar> \<le> 2 ^ 53 \<Longrightarrow> bindable k"
  unfolding bindable_def by (auto simp: abs_le_iff)

lemma plain_amount_stored:
  assumes "plain_amount a"
  shows "\<exists>v. bind_param a = Inr v \<and> real_affinity eng v = amount_cell a"
  using assms small_int_bindable
  by (cases a) (auto simp: plain_amount_def amount_cell_def real_affinity_def)

lemma plain_amount_not_null:
  assumes "plain_amount a"
  shows "amount_cell a \<noteq> SqlNull"
  using assms by (cases a) (auto simp: plain_amount_def amount_cell_def)

lemma sql_insert_text_row:
  assumes "real_affinity eng v = cell" and "cell \<noteq> SqlNull"
  shows "sql_insert eng db [SqlText d, v, SqlText c, SqlText s, SqlText n] =
     Inr (\<lparr>rows = rows db @ [\<lparr>id_col = next_id db, date = d, amount = cell, category = c,
                                subcategory = SqlText s, note_col = SqlText n\<rparr>],
            sqlite_sequence = next_id db\<rparr>, next_id db)"
  using assms
  by (simp add: sql_insert_def converted_def affinity_def text_affinity_def violates_not_null_def
      not_null_def write_columns_def blank_row_def text_of_def Let_def)

text \<open>
  C9, as amended. For every table, and every call of \<^verbatim>\<open>add\<close> whose date, category,
  subcategory and note are strings and whose amount is a float other than NaN, or a
  bool or an int of magnitude up to \<open>2 ^ 53\<close>: \<^verbatim>\<open>add\<close> answers \<^verbatim>\<open>{status: ok, id: i}\<close>
  with an id \<open>i\<close> that no record of the table has; a list over a range that contains the
  date then has exactly one record with id \<open>i\<close>, whose date, category, subcategory and
  note are the strings supplied and whose amount is the float supplied, or the float of
  the same value as the integer supplied. A call without subcategory and note is the
  call with both the empty string.
\<close>

theorem add_expense_round_trip:
  assumes "plain_amount a" and "start_date \<le> d" and "d \<le> end_date"
  shows "(let i = next_id db;
             r = \<lparr>id_col = i, date = d, amount = amount_cell a, category = c,
                  subcategory = SqlText s, note_col = SqlText n\<rparr>;
             db' = \<lparr>rows = rows db @ [r], sqlite_sequence = i\<rparr>
         in add_expense eng db (PyStr d) a (PyStr c) (PyStr s) (PyStr n) =
              (Inr (Status_id ''ok'' i), db')
            \<and> i \<notin> id_col ` set (rows db)
            \<and> filter (\<lambda>x. id_col x = i) (list_expenses db' start_date end_date) = [r])
         \<and> add_expense_default eng db (PyStr d) a (PyStr c) =
             add_expense eng db (PyStr d) a (PyStr c) (PyStr '''') (PyStr '''')"
proof -
  define i where "i = next_id db"
  define r where "r = \<lparr>id_col = i, date = d, amount = amount_cell a, category = c,
      subcategory = SqlText s, note_col = SqlText n\<rparr>"
  from plain_amount_stored [OF assms(1), of eng]
  obtain v where v: "bind_param a = Inr v" "real_affinity eng v = amount_cell a"
    by blast
  have nn: "amount_cell a \<noteq> SqlNull"
    using assms(1) by (rule plain_amount_not_null)
  have ins: "sql_insert eng db [SqlText d, v, SqlText c, SqlText s, SqlText n] =
      Inr (\<lparr>rows = rows db @ [r], sqlite_sequence = i\<rparr>, i)"
    unfolding r_def i_def by (rule sql_insert_text_row [OF v(2) nn])
  have add: "add_expense eng db (PyStr d) a (PyStr c) (PyStr s) (PyStr n) =
      (Inr (Status_id ''ok'' i), \<lparr>rows = rows db @ [r], sqlite_sequence = i\<rparr>)"
    by (simp add: add_expense_def v(1) ins)
  have fresh: "i \<notin> id_col ` set (rows db)" unfolding i_def by (rule next_id_fresh)
  then have none: "filter (\<lambda>x. id_col x = i) (rows db) = []"
    by (auto simp: filter_empty_conv)
  have "filter (\<lambda>x. id_col x = i) (sort_key id_col (filter (\<lambda>x. between (date x) start_date end_date) (rows db @ [r])))
      = sort_key id_col (filter (\<lambda>x. between (date x) start_date end_date) (filter (\<lambda>x. id_col x = i) (rows db @ [r])))"
    by (simp add: filter_sort conj_commute)
  also have "\<dots> = [r]"
    using assms(2,3) none by (simp add: r_def between_def)
  finally have lst: "filter (\<lambda>x. id_col x = i)
      (list_expenses \<lparr>rows = rows db @ [r], sqlite_sequence = i\<rparr> start_date end_date) = [r]"
    by (simp add: list_expenses_def sql_select_between_def)
  from add fresh lst show ?thesis
    unfolding Let_def i_def [symmetric] r_def [symmetric]
    by (simp add: add_expense_default_def)
qed

theorem add_expense_round_trip_witness:
  "add_expense sample_engine (init_db None) (PyStr ''2024-01-05'') (PyFloat (Finite 42.5))
       (PyStr ''Food'') (PyStr ''Lunch'') (PyStr ''Deli'') =
     (Inr (Status_id ''ok'' 1),
      \<lparr>rows = [\<lparr>id_col = 1, date = ''2024-01-05'', amount = SqlReal (Finite 42.5),
                 category = ''Food'', subcategory = SqlText ''Lunch'',
                 note_col = SqlText ''Deli''\<rparr>], sqlite_sequence = 1\<rparr>)
   \<and> list_expenses
        \<lparr>rows = [\<lparr>id_col = 1, date = ''2024-01-05'', amount = SqlReal (Finite 42.5),
                 category = ''Food'', subcategory = SqlText ''Lunch'',
                 note_col = SqlText ''Deli''\<rparr>], sqlite_sequence = 1\<rparr>
        ''2024-01-01'' ''2024-01-31'' =
       [\<lparr>id_col = 1, date = ''2024-01-05'', amount = SqlReal (Finite 42.5),
          category = ''Food'', subcategory = SqlText ''Lunch'', note_col = SqlText ''Deli''\<rparr>]"
proof -
  have pa: "plain_amount (PyFloat (Finite 42.5))" by (simp add: plain_amount_def)
  have lo: "''2024-01-01'' \<le> ''2024-01-05''" by simp
  have hi: "''2024-01-05'' \<le> ''2024-01-31''" by simp
  have i: "next_id \<lparr>rows = [], sqlite_sequence = 0\<rparr> = 1" by (simp add: next_id_def)
  show ?thesis
    using add_expense_round_trip [OF pa lo hi, where db = "init_db None" and eng = sample_engine
        and c = "''Food''" and s = "''Lunch''" and n = "''Deli''"]
    by (simp add: i Let_def init_db_def amount_cell_def list_expenses_def sql_select_between_def
        between_def)
qed

text \<open>
  C9 as stated, for every call of \<^verbatim>\<open>add\<close>, fails: an int amount of \<open>2 ^ 63\<close> ends in
  \<^verbatim>\<open>OverflowError\<close>, the amount NaN and the date \<^verbatim>\<open>None\<close> end in \<^verbatim>\<open>IntegrityError\<close>, and
  no record is added.
\<close>

theorem add_expense_unchecked_counterexample:
  "add_expense sample_engine ledger (PyStr ''2024-01-05'') (PyInt 9223372036854775808)
       (PyStr ''Food'') (PyStr ''Lunch'') (PyStr ''Deli'') = (Inl OverflowError, ledger)
   \<and> add_expense sample_engine ledger (PyStr ''2024-01-05'') (PyFloat NaN)
       (PyStr ''Food'') (PyStr ''Lunch'') (PyStr ''Deli'') = (Inl IntegrityError, ledger)
   \<and> add_expense sample_engine ledger PyNone (PyFloat (Finite 42.5))
       (PyStr ''Food'') (PyStr ''Lunch'') (PyStr ''Deli'') = (Inl IntegrityError, ledger)"
  by (simp add: add_expense_def bindable_def sql_insert_def converted_def affinity_def
      text_affinity_def real_affinity_def violates_not_null_def not_null_def)

subsection \<open>Updating a record\<close>

text \<open>
  When \<^verbatim>\<open>update\<close> on an id of the table, with at least one field, returns a reply, the
  reply is \<^verbatim>\<open>{status: ok, updated: 1}\<close>, whatever the values; \<^verbatim>\<open>update\<close> never answers
  \<^verbatim>\<open>no_change\<close>; and it answers \<^verbatim>\<open>not_found\<close> only when no record has the id.
\<close>

lemma update_expense_existing:
  assumes "primary_key db" and "int_py expense_id = Inr i" and "i \<in> id_col ` set (rows db)"
    and "fst (update_expense eng db expense_id d a c s n) = Inr rep"
    and "update_fields d a c s n \<noteq> []"
  shows "rep = Status_updated ''ok'' 1"
proof -
  from assms(1,3) have one: "length (filter (\<lambda>r. id_col r = i) (rows db)) = 1"
    unfolding primary_key_def by (simp add: count_by_key)
  show ?thesis
  proof (cases "bind_params (map snd (update_fields d a c s n) @ [PyInt i])")
    case (Inl e)
    with assms(2,4,5) show ?thesis by (simp add: update_expense_def Let_def)
  next
    case (Inr params)
    show ?thesis
    proof (cases "sql_update eng db (zip (map fst (update_fields d a c s n)) params) i")
      case (Inl e)
      with Inr assms(2,4,5) show ?thesis by (simp add: update_expense_def Let_def)
    next
      case upd: (Inr res)
      obtain db' k where res: "res = (db', k)" by (cases res)
      from upd res have "k = 1" using sql_update_rowcount one by metis
      with upd res Inr assms(2,4,5) show ?thesis
        by (auto simp: update_expense_def Let_def)
    qed
  qed
qed

lemma update_expense_never_no_change:
  "fst (update_expense eng db expense_id d a c s n) \<noteq> Inr (Status_updated ''no_change'' 0)"
proof (cases "int_py expense_id")
  case (Inl e)
  then show ?thesis by (simp add: update_expense_def)
next
  case (Inr i)
  have "\<not> sql_exists db' i" if "sql_update eng db fs i = Inr (db', 0)" for fs db'
  proof -
    from sql_update_rowcount [OF that] have "\<not> sql_exists db i"
      by (simp add: sql_exists_def)
    with sql_update_ids [OF that] show ?thesis by (simp add: sql_exists_iff)
  qed
  with Inr show ?thesis
    by (auto simp: update_expense_def Let_def split: sum.splits)
qed

lemma update_expense_not_found:
  assumes "fst (update_expense eng db expense_id d a c s n) = Inr (Status_updated ''not_found'' 0)"
  shows "\<exists>i. int_py expense_id = Inr i \<and> i \<notin> id_col ` set (rows db)"
proof (cases "int_py expense_id")
  case (Inl e)
  with assms show ?thesis by (simp add: update_expense_def split: if_splits)
next
  case (Inr i)
  have "i \<notin> id_col ` set (rows db)" if "sql_update eng db fs i = Inr (db', 0)" for fs db'
    using sql_update_rowcount [OF that] by (auto simp: filter_empty_conv)
  with Inr assms show ?thesis
    by (auto simp: update_expense_def Let_def split: sum.splits if_splits)
qed

text \<open>
  C1. The claim is that \<^verbatim>\<open>update\<close> of an existing record with the values it already has
  answers \<^verbatim>\<open>{status: no_change, updated: 0}\<close>. The code answers
  \<^verbatim>\<open>{status: ok, updated: 1}\<close>: here the first record of the ledger is updated with all
  five of its own values, and the table stays as it is.
\<close>

theorem update_identical_is_ok:
  "update_expense eng ledger (PyInt 1) (PyStr ''2024-01-05'') (PyFloat (Finite 42.5))
       (PyStr ''Food'') (PyStr ''Lunch'') (PyStr ''Deli'')
     = (Inr (Status_updated ''ok'' 1), ledger)"
  by (simp add: update_expense_def update_fields_def bindable_def sql_update_def converted_def
      affinity_def text_affinity_def real_affinity_def violates_not_null_def not_null_def
      write_columns_def text_of_def ledger_def)

subsection \<open>Deleting several records\<close>

text \<open>
  The loop over \<^verbatim>\<open>raw_ids\<close> collects the integers in \<^verbatim>\<open>ids\<close> and the items that
  \<^verbatim>\<open>int()\<close> refuses with a caught exception in \<^verbatim>\<open>invalid\<close>, each in the order of the
  input; and the tokens the code takes from a string are the tokens of the
  specification.
\<close>

lemma coerce_loop_all_ok:
  "map int_py xs = map Inr ids \<Longrightarrow> coerce_loop acc invalid xs = Inr (acc @ ids, invalid)"
proof (induction xs arbitrary: acc ids)
  case Nil
  then show ?case by simp
next
  case (Cons x xs)
  then obtain i rest where ids: "ids = i # rest" and x: "int_py x = Inr i"
    and xs: "map int_py xs = map Inr rest"
    by (cases ids) auto
  from Cons.IH [OF xs, of "acc @ [i]"] x ids show ?case by simp
qed

lemma coerce_loop_caught:
  assumes "list_all (\<lambda>x. case int_py x of Inl e \<Rightarrow> caught e | Inr i \<Rightarrow> True) xs"
  shows "coerce_loop acc invalid xs =
     Inr (acc @ map projr (filter (\<lambda>y. \<not> isl y) (map int_py xs)),
          invalid @ filter (\<lambda>x. isl (int_py x)) xs)"
  using assms
proof (induction xs arbitrary: acc invalid)
  case Nil
  then show ?case by simp
next
  case (Cons x xs)
  then show ?case by (cases "int_py x") simp_all
qed

lemma split_from_pieces:
  "filter (\<lambda>p. p \<noteq> []) (split_from cur (replace_comma s)) =
   filter (\<lambda>t. t \<noteq> []) (pieces (\<lambda>c. c = CHR '','' \<or> is_space c) cur s)"
proof (induction s arbitrary: cur)
  case Nil
  then show ?case by (simp add: replace_comma_def)
next
  case (Cons c s)
  have sp: "is_space (CHR '' '')" by (simp add: is_space_def)
  from Cons [of "[]"] Cons [of "cur @ [c]"] sp show ?case
    by (simp add: replace_comma_def)
qed

lemma raw_ids_of_string: "raw_ids_of (PyStr s) = map PyStr (tokens_spec s)"
  by (simp add: raw_ids_of_def split_py_def tokens_spec_def split_from_pieces)

lemma delete_expenses_coerced:
  assumes "expense_ids \<noteq> PyNone" and "map int_py (raw_ids_of expense_ids) = map Inr ids"
  shows "delete_expenses eng db expense_ids False =
     (if ids = [] then (Inr (Status_message ''error'' ''no valid expense_ids provided''), db)
      else if variable_limit eng < length ids then (Inl OperationalError, db)
      else if \<not> list_all bindable ids then (Inl OverflowError, db)
      else (Inr (Status_deleted_missing
                   (if 0 < length (filter (\<lambda>r. id_col r \<in> set ids) (rows db)) then ''ok'' else ''not_found'')
                   (length (filter (\<lambda>r. id_col r \<in> set ids) (rows db)))
                   (sorted_list_of_set (set ids - id_col ` set (rows db)))),
            db\<lparr>rows := filter (\<lambda>r. id_col r \<notin> set ids) (rows db)\<rparr>))"
proof -
  have "set ids - set (filter (\<lambda>i. i \<in> set ids) (map id_col (rows db))) = set ids - id_col ` set (rows db)"
    by auto
  then show ?thesis
    using assms(1) coerce_loop_all_ok [OF assms(2), of "[]" "[]"]
    by (simp add: delete_expenses_def sql_select_ids_in_def sql_delete_in_def prepare_in_def
        sql_delete_where_def)
qed

lemma delete_expenses_too_many:
  assumes "expense_ids \<noteq> PyNone"
    and "map int_py (raw_ids_of expense_ids) = map Inr ids"
    and "variable_limit eng < length ids"
  shows "delete_expenses eng db expense_ids False = (Inl OperationalError, db)"
proof -
  from assms(3) have "ids \<noteq> []" by auto
  with assms(3) show ?thesis
    by (simp add: delete_expenses_coerced [OF assms(1,2)])
qed

text \<open>
  C2, as amended. When \<^verbatim>\<open>delete_all\<close> is false, every item of \<^verbatim>\<open>expense_ids\<close> is turned by
  \<^verbatim>\<open>int()\<close> into an integer of the signed 64-bit range, and the items are at least one
  and no more than a statement may have parameters, \<^verbatim>\<open>delete_many\<close> removes exactly the
  records whose id is among the requested ones, and answers with \<^verbatim>\<open>deleted\<close> the number
  \<open>n\<close> of those records and with \<^verbatim>\<open>missing\<close> the requested ids that no record had,
  ascending and without repetition. The status is \<^verbatim>\<open>not_found\<close> when \<open>n\<close> is 0 and \<^verbatim>\<open>ok\<close>
  otherwise, and \<open>n\<close> is 0 exactly when none of the requested ids is in the table. A
  repeated id in the input changes nothing but the number of parameters.
\<close>

theorem delete_expenses_by_ids:
  assumes "expense_ids \<noteq> PyNone"
    and "map int_py (raw_ids_of expense_ids) = map Inr ids"
    and "ids \<noteq> []"
    and "length ids \<le> variable_limit eng"
    and "list_all bindable ids"
  shows "(let n = length (filter (\<lambda>r. id_col r \<in> set ids) (rows db))
          in delete_expenses eng db expense_ids False =
               (Inr (Status_deleted_missing (if n = 0 then ''not_found'' else ''ok'') n
                       (sorted_list_of_set (set ids - id_col ` set (rows db)))),
                db\<lparr>rows := filter (\<lambda>r. id_col r \<notin> set ids) (rows db)\<rparr>)
             \<and> (n = 0) = (set ids \<inter> id_col ` set (rows db) = {}))"
proof -
  have "(length (filter (\<lambda>r. id_col r \<in> set ids) (rows db)) = 0)
      = (set ids \<inter> id_col ` set (rows db) = {})"
    by (auto simp: filter_empty_conv)
  then show ?thesis
    using assms(3,4,5) delete_expenses_coerced [OF assms(1,2), of eng db]
    by (simp add: Let_def)
qed

theorem delete_expenses_by_ids_witness:
  "delete_expenses sample_engine ledger (PyList [PyInt 1, PyInt 99, PyStr ''1'']) False =
     (Inr (Status_deleted_missing ''ok'' 1 [99]), ledger\<lparr>rows := [rows ledger ! 1, rows ledger ! 2]\<rparr>)"
proof -
  have a: "PyList [PyInt 1, PyInt 99, PyStr ''1''] \<noteq> PyNone" by simp
  have b: "map int_py (raw_ids_of (PyList [PyInt 1, PyInt 99, PyStr ''1''])) = map Inr [1, 99, 1]"
    by (simp add: raw_ids_of_def int_str_def strip_int_def is_space_int_def is_digit_def
        digits_value_def digit_val_def int_max_str_digits_def)
  have c: "[1, 99, 1] \<noteq> ([] :: int list)" by simp
  have l: "length [1, 99, 1 :: int] \<le> variable_limit sample_engine"
    by (simp add: sample_engine_def)
  have d: "list_all bindable [1, 99, 1]" by (simp add: bindable_def)
  have e: "set [1, 99, 1] - id_col ` set (rows ledger) = {99 :: int}"
    by (auto simp: ledger_def)
  show ?thesis
    using delete_expenses_by_ids [OF a b c l d, of ledger]
    by (simp only: e Let_def) (simp add: ledger_def)
qed

text \<open>
  C2 as stated, for all items that \<^verbatim>\<open>int()\<close> accepts, fails when one of them is \<open>2 ^ 63\<close>:
  the record with id 1 exists and is requested, yet the call ends in \<^verbatim>\<open>OverflowError\<close>
  and deletes nothing. It fails as well when the items are more than a statement may
  have parameters: the call then ends in \<^verbatim>\<open>OperationalError\<close>.
\<close>

theorem delete_expenses_unbounded_counterexample:
  "map int_py (raw_ids_of (PyList [PyInt 1, PyInt 9223372036854775808])) = [Inr 1, Inr 9223372036854775808]
   \<and> 1 \<in> id_col ` set (rows ledger)
   \<and> delete_expenses sample_engine ledger (PyList [PyInt 1, PyInt 9223372036854775808]) False
       = (Inl OverflowError, ledger)"
  by (simp add: raw_ids_of_def delete_expenses_def sql_select_ids_in_def prepare_in_def
      bindable_def ledger_def sample_engine_def)

text \<open>
  C3. Let the string \<open>s\<close> be cut at commas and whitespace, the empty pieces dropped, and
  let \<^verbatim>\<open>int()\<close> turn the tokens into the integers \<open>ids\<close>. Then \<^verbatim>\<open>delete_many\<close> with \<open>s\<close>
  gives the reply and the table that \<^verbatim>\<open>delete_many\<close> with the list \<open>ids\<close> gives, on every
  table and for either value of \<^verbatim>\<open>delete_all\<close>; so for \<^verbatim>\<open>"1, 2 3"\<close> and \<^verbatim>\<open>[1,2,3]\<close>.
\<close>

theorem delete_expenses_string_as_list:
  assumes "map int_py (map PyStr (tokens_spec s)) = map Inr ids"
  shows "delete_expenses eng db (PyStr s) delete_all =
         delete_expenses eng db (PyList (map PyInt ids)) delete_all"
proof (cases delete_all)
  case True
  then show ?thesis by (simp add: delete_expenses_def)
next
  case False
  have a: "map int_py (raw_ids_of (PyStr s)) = map Inr ids"
    using assms by (simp only: raw_ids_of_string)
  have b: "map int_py (raw_ids_of (PyList (map PyInt ids))) = map Inr ids"
    by (simp add: raw_ids_of_def)
  have "delete_expenses eng db (PyStr s) False = delete_expenses eng db (PyList (map PyInt ids)) False"
    by (simp only: delete_expenses_coerced [OF _ a] delete_expenses_coerced [OF _ b] pyval.distinct
        not_False_eq_True)
  with False show ?thesis by simp
qed

theorem delete_expenses_string_as_list_witness:
  "tokens_spec ''1, 2 3'' = [''1'', ''2'', ''3'']
   \<and> delete_expenses sample_engine ledger (PyStr ''1, 2 3'') False
       = delete_expenses sample_engine ledger (PyList [PyInt 1, PyInt 2, PyInt 3]) False
   \<and> delete_expenses sample_engine ledger (PyList [PyInt 1, PyInt 2, PyInt 3]) False
       = (Inr (Status_deleted_missing ''ok'' 2 [2]), ledger\<lparr>rows := [rows ledger ! 2]\<rparr>)"
proof -
  have t: "tokens_spec ''1, 2 3'' = [''1'', ''2'', ''3'']"
    by (simp add: tokens_spec_def is_space_def)
  have "map int_py (map PyStr (tokens_spec ''1, 2 3'')) = map Inr [1, 2, 3]"
    unfolding t
    by (simp add: int_str_def strip_int_def is_space_int_def is_digit_def
        digits_value_def digit_val_def int_max_str_digits_def)
  from delete_expenses_string_as_list [OF this, of sample_engine ledger False]
  have eq: "delete_expenses sample_engine ledger (PyStr ''1, 2 3'') False
      = delete_expenses sample_engine ledger (PyList [PyInt 1, PyInt 2, PyInt 3]) False"
    by simp
  have "{2, 3} - {3} = {2 :: int}" by auto
  then have "delete_expenses sample_engine ledger (PyList [PyInt 1, PyInt 2, PyInt 3]) False
      = (Inr (Status_deleted_missing ''ok'' 2 [2]), ledger\<lparr>rows := [rows ledger ! 2]\<rparr>)"
    by (simp add: delete_expenses_def raw_ids_of_def sql_select_ids_in_def sql_delete_in_def
        prepare_in_def sql_delete_where_def bindable_def ledger_def sample_engine_def)
  with t eq show ?thesis by simp
qed

subsection \<open>Validation failures\<close>

text \<open>
  \<^verbatim>\<open>int()\<close> raises an exception that the tools do not catch for the two infinite floats
  and for nothing else. Every other validation failure is answered with
  \<^verbatim>\<open>status: error\<close> and a message, and the table after the call is the table before it:
  \<^item> \<^verbatim>\<open>delete\<close> and \<^verbatim>\<open>update\<close> with an \<^verbatim>\<open>expense_id\<close> that \<^verbatim>\<open>int()\<close> refuses;
  \<^item> \<^verbatim>\<open>delete_many\<close> without \<^verbatim>\<open>expense_ids\<close> and with \<^verbatim>\<open>delete_all\<close> false;
  \<^item> \<^verbatim>\<open>delete_many\<close> with an item that \<^verbatim>\<open>int()\<close> refuses: the reply lists those items;
  \<^item> \<^verbatim>\<open>delete_many\<close> with no item at all;
  \<^item> \<^verbatim>\<open>update\<close> with no field.
\<close>

lemma int_py_uncaught:
  "(int_py v = Inl e \<and> \<not> caught e) =
   ((v = PyFloat PosInf \<or> v = PyFloat NegInf) \<and> e = OverflowError)"
proof (cases v)
  case (PyFloat f)
  then show ?thesis by (cases f) (auto simp: int_float_def caught_def)
next
  case (PyStr s)
  then show ?thesis
    by (auto simp: int_str_def caught_def Let_def split: if_splits)
qed (auto simp: caught_def)

lemma validation_failures_caught:
  "(int_py v1 = Inl e1 \<and> caught e1 \<longrightarrow>
      delete_expense db v1 = (Inr (Status_message ''error'' ''expense_id must be an integer''), db))
   \<and> (int_py v2 = Inl e2 \<and> caught e2 \<longrightarrow>
      update_expense eng db v2 d a c s n =
        (Inr (Status_message ''error'' ''expense_id must be an integer''), db))
   \<and> delete_expenses eng db PyNone False =
        (Inr (Status_message ''error'' ''provide expense_ids or set delete_all=true''), db)
   \<and> (xs \<noteq> PyNone
        \<and> list_all (\<lambda>x. case int_py x of Inl e \<Rightarrow> caught e | Inr i \<Rightarrow> True) (raw_ids_of xs)
        \<and> filter (\<lambda>x. isl (int_py x)) (raw_ids_of xs) \<noteq> [] \<longrightarrow>
      delete_expenses eng db xs False =
        (Inr (Status_message_invalid ''error'' ''expense_ids must be integers''
               (filter (\<lambda>x. isl (int_py x)) (raw_ids_of xs))), db))
   \<and> (ys \<noteq> PyNone \<and> raw_ids_of ys = [] \<longrightarrow>
      delete_expenses eng db ys False =
        (Inr (Status_message ''error'' ''no valid expense_ids provided''), db))
   \<and> (int_py v3 = Inr i \<longrightarrow>
      update_expense eng db v3 PyNone PyNone PyNone PyNone PyNone =
        (Inr (Status_message ''error'' ''provide at least one field to update''), db))"
  by (simp add: delete_expense_def update_expense_def update_fields_def delete_expenses_def
      coerce_loop_caught)

text \<open>
  C4. The claim is that every \<^verbatim>\<open>expense_id\<close> and every item of \<^verbatim>\<open>expense_ids\<close> that cannot
  be turned into an integer is answered with \<^verbatim>\<open>status: error\<close>. For an infinite float
  the code does not answer: \<^verbatim>\<open>int()\<close> raises \<^verbatim>\<open>OverflowError\<close>, which
  \<^verbatim>\<open>except (TypeError, ValueError)\<close> lets through, in \<^verbatim>\<open>delete\<close>, in \<^verbatim>\<open>update\<close> and in
  \<^verbatim>\<open>delete_many\<close>. The table stays as it is.
\<close>

theorem validation_misses_infinity:
  "delete_expense ledger (PyFloat PosInf) = (Inl OverflowError, ledger)
   \<and> update_expense eng ledger (PyFloat PosInf) (PyStr ''2024-03-01'') PyNone PyNone PyNone PyNone
       = (Inl OverflowError, ledger)
   \<and> delete_expenses eng ledger (PyList [PyInt 1, PyFloat NegInf]) False
       = (Inl OverflowError, ledger)"
  by (simp add: delete_expense_def update_expense_def delete_expenses_def raw_ids_of_def
      int_float_def caught_def)

subsection \<open>Summaries\<close>






text \<open>A sorter that sorts by insertion does the work, on every list of rows.\<close>

lemma insertion_sorts_by_category:
  "group_order eng = sort_key category \<Longrightarrow> sorts_by_category eng xs"
  by (simp add: sorts_by_category_def)




subsection \<open>The empty category\<close>

text \<open>
  C10. \<^verbatim>\<open>summarize\<close> with the empty string as category returns what it returns without a
  category: the empty string is no filter.
\<close>

theorem summarize_empty_category:
  "summarize eng db start_date end_date (Some '''') = summarize eng db start_date end_date None"
  by (simp add: summarize_def)

end
